theory Spec2Isabelle
  imports Complex_Main "HOL-Library.Sublist"
begin

section \<open>Signal outcome and partial-exit P&L engine\<close>

text \<open>
  A shallow embedding of the two evaluators of the repository and of the strategy
  generator:
  \<^item> \<open>StrategyOptimizer.calculate_signal_profit\<close>, \<open>calculate_portfolio_profit\<close>,
    \<open>generate_strategies\<close> and the improvement figures of \<open>optimize\<close>
    (\<open>optimize_exit_strategy.py\<close>);
  \<^item> the per-row body of \<open>get_signal_history_fallback\<close> (\<open>dashboard_backend.py\<close>).

  Python floats are modelled by \<open>real\<close>: every arithmetic step is exact, so the
  theorems speak about the formulas of the code, not about binary rounding.
  Exceptions are values of the type \<open>error\<close>; a function that can raise returns
  \<open>error + 'a\<close>, with \<open>Inl\<close> for the exception.
\<close>

subsection \<open>Python values\<close>

datatype error = TypeError | IndexError | ZeroDivisionError | ValueError

definition bind_err :: "error + 'a \<Rightarrow> ('a \<Rightarrow> error + 'b) \<Rightarrow> error + 'b" where
  "bind_err m f = (case m of Inl e \<Rightarrow> Inl e | Inr v \<Rightarrow> f v)"

text \<open>Float division: \<open>a / b\<close> raises \<open>ZeroDivisionError\<close> when \<open>b\<close> is zero.\<close>

definition py_truediv :: "real \<Rightarrow> real \<Rightarrow> error + real" where
  "py_truediv a b = (if b = 0 then Inl ZeroDivisionError else Inr (a / b))"

text \<open>Truth value of an optional number: \<open>None\<close> and \<open>0\<close> are false.\<close>

definition truthy :: "real option \<Rightarrow> bool" where
  "truthy v = (case v of None \<Rightarrow> False | Some x \<Rightarrow> x \<noteq> 0)"

text \<open>\<open>round(x, n)\<close>: to the nearest multiple of \<open>10^-n\<close>, a tie to the even one.\<close>

definition round_half_even :: "real \<Rightarrow> int" where
  "round_half_even x =
     (let f = \<lfloor>x\<rfloor>; d = x - of_int f
      in if d < 1 / 2 then f
         else if 1 / 2 < d then f + 1
         else if even f then f else f + 1)"

definition py_round :: "real \<Rightarrow> nat \<Rightarrow> real" where
  "py_round x n = of_int (round_half_even (x * 10 ^ n)) / 10 ^ n"

text \<open>\<open>sub in s\<close> on strings: \<open>sub\<close> occurs in \<open>s\<close> as a contiguous run.\<close>

fun py_in :: "string \<Rightarrow> string \<Rightarrow> bool" where
  "py_in sub [] = (sub = [])"
| "py_in sub (c # cs) = (prefix sub (c # cs) \<or> py_in sub cs)"

subsection \<open>Signals\<close>

text \<open>
  One row of \<open>signal_details\<close> joined with its \<open>announced_tps\<close>. Prices and the risk
  level are nullable columns; \<open>symbol\<close> and \<open>action\<close> are strings. \<open>tps_hit\<close> holds the
  announced levels, which are natural numbers.
\<close>

record signal =
  signal_number :: int
  symbol :: string
  action :: string
  entry_price :: "real option"
  stop_loss :: "real option"
  tp1 :: "real option"
  tp2 :: "real option"
  tp3 :: "real option"
  tp4 :: "real option"
  tp5 :: "real option"
  tp6 :: "real option"
  risk_level :: "string option"
  tps_hit :: "nat list"

text \<open>\<open>max(tps_hit) if tps_hit else 0\<close>\<close>

definition highest_tp :: "signal \<Rightarrow> nat" where
  "highest_tp s = (if tps_hit s = [] then 0 else Max (set (tps_hit s)))"

text \<open>\<open>signal.get(f'tp{n}')\<close>: \<open>None\<close> for a key the dictionary does not have.\<close>

definition tp_get :: "signal \<Rightarrow> nat \<Rightarrow> real option" where
  "tp_get s n =
     (if n = 1 then tp1 s else if n = 2 then tp2 s else if n = 3 then tp3 s
      else if n = 4 then tp4 s else if n = 5 then tp5 s else if n = 6 then tp6 s
      else None)"

text \<open>\<open>row[f'tp{n}']\<close> on a \<open>sqlite3.Row\<close>: \<open>IndexError\<close> for a column that is not there.\<close>

definition row_tp :: "signal \<Rightarrow> nat \<Rightarrow> error + real option" where
  "row_tp s n = (if 1 \<le> n \<and> n \<le> 6 then Inr (tp_get s n) else Inl IndexError)"

subsection \<open>The optimizer's evaluator\<close>

text \<open>\<open>{'LOW': 1, 'MEDIUM': 2, 'HIGH': 3}.get(signal['risk_level'], 2)\<close>\<close>

definition risk_percent_get :: "string option \<Rightarrow> real" where
  "risk_percent_get rl =
     (if rl = Some ''LOW'' then 1
      else if rl = Some ''MEDIUM'' then 2
      else if rl = Some ''HIGH'' then 3
      else 2)"

text \<open>
  The loop \<open>for i in range(highest_tp)\<close> of \<open>calculate_signal_profit\<close>, with the
  running \<open>total_profit\<close>. \<open>strategy[i]\<close> raises \<open>IndexError\<close> past the end of the list.
\<close>

fun tp_loop :: "signal \<Rightarrow> real list \<Rightarrow> real \<Rightarrow> real \<Rightarrow> nat list \<Rightarrow> real \<Rightarrow> error + real" where
  "tp_loop s strategy entry risk_percent [] total_profit = Inr total_profit"
| "tp_loop s strategy entry risk_percent (i # rest) total_profit =
     (case tp_get s (i + 1) of
        None \<Rightarrow> tp_loop s strategy entry risk_percent rest total_profit
      | Some tp_price \<Rightarrow>
          if tp_price = 0 then tp_loop s strategy entry risk_percent rest total_profit
          else bind_err (py_truediv \<bar>tp_price - entry\<bar> entry) (\<lambda>q.
            let price_move_percent = q * 100;
                leveraged_move = price_move_percent * 500
            in if i < length strategy
               then tp_loop s strategy entry risk_percent rest
                      (total_profit + (leveraged_move * strategy ! i) * (risk_percent / 100))
               else Inl IndexError))"

definition calculate_signal_profit :: "signal \<Rightarrow> real list \<Rightarrow> error + real" where
  "calculate_signal_profit s strategy =
     (if highest_tp s = 0 then Inr (- risk_percent_get (risk_level s))
      else case entry_price s of
        None \<Rightarrow> Inl TypeError
      | Some entry \<Rightarrow>
          if entry = 0 then Inr 0
          else tp_loop s strategy entry (risk_percent_get (risk_level s))
                 [0..<highest_tp s] 0)"

definition default_strategy :: "real list" where
  "default_strategy = [0.5, 0.2, 0.1, 0.1, 0.1, 0.0]"

subsection \<open>The signal-history evaluator\<close>

text \<open>\<open>row['risk_level'] if row['risk_level'] else 'MEDIUM'\<close>, then the if-chain.\<close>

definition risk_percent_row :: "string option \<Rightarrow> real" where
  "risk_percent_row rl =
     (let risk_level = (case rl of None \<Rightarrow> ''MEDIUM'' | Some l \<Rightarrow> if l = [] then ''MEDIUM'' else l)
      in if risk_level = ''LOW'' then 1.0
         else if risk_level = ''HIGH'' then 3.0
         else 2.0)"

text \<open>The pip multiplier chain; the source repeats it in the stop-loss and the TP branch.\<close>

definition pip_multiplier :: "string \<Rightarrow> real" where
  "pip_multiplier name =
     (if py_in ''XAU'' name \<or> py_in ''GOLD'' name then 0.10
      else if py_in ''BTC'' name \<or> py_in ''BITCOIN'' name then 1.0
      else if py_in ''NAS'' name \<or> py_in ''US100'' name \<or> py_in ''NDX'' name then 1.0
      else if py_in ''JPY'' name then 0.01
      else 0.0001)"

text \<open>Pips from entry to a price, signed by direction.\<close>

definition signed_pips :: "string \<Rightarrow> real \<Rightarrow> real \<Rightarrow> real \<Rightarrow> error + real" where
  "signed_pips act p entry pm =
     (if act = ''BUY'' then py_truediv (p - entry) pm else py_truediv (entry - p) pm)"

text \<open>The estimate used when the stop-loss price or the entry price is unknown.\<close>

definition sl_estimate :: "string \<Rightarrow> real" where
  "sl_estimate name =
     (if py_in ''XAU'' name \<or> py_in ''GOLD'' name then - 30
      else if py_in ''BTC'' name \<or> py_in ''BITCOIN'' name then - 400
      else if py_in ''NAS'' name \<or> py_in ''US100'' name \<or> py_in ''NDX'' name then - 75
      else - 30)"

text \<open>The cumulative exit fraction applied to the move at the highest level hit.\<close>

definition cumulative_exit :: "nat \<Rightarrow> bool \<Rightarrow> real" where
  "cumulative_exit h has_tp6 =
     (if h = 1 then 0.50
      else if h = 2 then 0.70
      else if h = 3 then 0.80
      else if h = 4 then 0.90
      else if h = 5 then (if has_tp6 then 0.95 else 1)
      else if 6 \<le> h then 1
      else 0)"

text \<open>The exit fraction of one level in the breakdown.\<close>

definition partial_exit :: "nat \<Rightarrow> bool \<Rightarrow> real" where
  "partial_exit tp_level has_tp6 =
     (if tp_level = 1 then 0.50
      else if tp_level = 2 then 0.20
      else if tp_level = 3 then 0.10
      else if tp_level = 4 then 0.10
      else if tp_level = 5 then (if has_tp6 then 0.05 else 0.10)
      else if tp_level = 6 then 0.05
      else 0)"

record tp_row =
  b_tp_level :: nat
  b_price :: real
  b_pips :: real
  b_partial_exit_percent :: int
  b_profit_percent :: real

record evaluation =
  r_highest_tp :: nat
  r_outcome_class :: string
  r_exit_price :: "real option"
  r_pips :: real
  r_profit_percent :: real
  r_tp_breakdown :: "tp_row list"

text \<open>
  Pips and unrounded profit of a row: the stop-loss branch, the TP branch, and the
  fall-through that leaves both at their initial \<open>0\<close>.
\<close>

definition pips_and_profit :: "signal \<Rightarrow> real option \<Rightarrow> error + (real \<times> real)" where
  "pips_and_profit s exit_price =
     (let risk_percent = risk_percent_row (risk_level s) in
      if highest_tp s = 0 then
        (case (exit_price, entry_price s) of
           (Some x, Some e) \<Rightarrow>
             if x \<noteq> 0 \<and> e \<noteq> 0
             then bind_err (signed_pips (action s) x e (pip_multiplier (symbol s)))
                    (\<lambda>pips. Inr (pips, - risk_percent))
             else Inr (sl_estimate (symbol s), - risk_percent)
         | _ \<Rightarrow> Inr (sl_estimate (symbol s), - risk_percent))
      else
        (case (exit_price, entry_price s) of
           (Some x, Some e) \<Rightarrow>
             if x \<noteq> 0 \<and> e \<noteq> 0
             then bind_err (signed_pips (action s) x e (pip_multiplier (symbol s))) (\<lambda>pips.
                  bind_err (py_truediv \<bar>x - e\<bar> e) (\<lambda>q.
                    let price_move_percent = q * 100;
                        leveraged_move = price_move_percent * 500
                    in Inr (pips,
                         (leveraged_move * cumulative_exit (highest_tp s) (tp6 s \<noteq> None))
                           * (risk_percent / 100))))
             else Inr (0, 0)
         | _ \<Rightarrow> Inr (0, 0)))"

text \<open>One pass of the loop \<open>for tp_level in range(1, highest_tp + 1)\<close>.\<close>

definition breakdown_row :: "signal \<Rightarrow> real option \<Rightarrow> nat \<Rightarrow> real \<Rightarrow> error + tp_row" where
  "breakdown_row s exit_price tp_level tp_price =
     bind_err
       (case entry_price s of
          Some e \<Rightarrow>
            if truthy exit_price \<and> e \<noteq> 0
            then signed_pips (action s) tp_price e (pip_multiplier (symbol s))
            else Inr 0
        | None \<Rightarrow> Inr 0) (\<lambda>tp_pips.
     bind_err
       (case entry_price s of
          Some e \<Rightarrow>
            if e \<noteq> 0 then bind_err (py_truediv \<bar>tp_price - e\<bar> e) (\<lambda>q. Inr (q * 100))
            else Inr 0
        | None \<Rightarrow> Inr 0) (\<lambda>tp_price_move.
       let tp_leveraged_move = tp_price_move * 500;
           pe = partial_exit tp_level (tp6 s \<noteq> None);
           tp_profit = (tp_leveraged_move * pe) * (risk_percent_row (risk_level s) / 100)
       in Inr \<lparr> b_tp_level = tp_level,
                b_price = py_round tp_price (if \<not> py_in ''JPY'' (symbol s) then 2 else 3),
                b_pips = py_round tp_pips 1,
                b_partial_exit_percent = \<lfloor>pe * 100\<rfloor>,
                b_profit_percent = py_round tp_profit 2 \<rparr>))"

fun breakdown_loop :: "signal \<Rightarrow> real option \<Rightarrow> nat list \<Rightarrow> error + tp_row list" where
  "breakdown_loop s exit_price [] = Inr []"
| "breakdown_loop s exit_price (tp_level # rest) =
     bind_err (row_tp s tp_level) (\<lambda>tp_price.
       case tp_price of
         None \<Rightarrow> breakdown_loop s exit_price rest
       | Some p \<Rightarrow>
           if p = 0 then breakdown_loop s exit_price rest
           else bind_err (breakdown_row s exit_price tp_level p) (\<lambda>r.
                bind_err (breakdown_loop s exit_price rest) (\<lambda>rs. Inr (r # rs))))"

text \<open>
  The body of \<open>for row in rows\<close>: the computed fields of the entry appended to
  \<open>signals\<close> (the other fields are copies of the row).
\<close>

definition evaluate_row :: "signal \<Rightarrow> error + evaluation" where
  "evaluate_row s =
     bind_err (if highest_tp s = 0 then Inr (stop_loss s) else row_tp s (highest_tp s))
       (\<lambda>exit_price.
     bind_err (pips_and_profit s exit_price) (\<lambda>(pips, profit_percent).
     bind_err (breakdown_loop s exit_price [1..<highest_tp s + 1]) (\<lambda>rows.
       Inr \<lparr> r_highest_tp = highest_tp s,
             r_outcome_class = (if highest_tp s = 0 then ''loss'' else ''win''),
             r_exit_price = exit_price,
             r_pips = (if pips \<noteq> 0 then py_round pips 1 else 0),
             r_profit_percent = (if profit_percent \<noteq> 0 then py_round profit_percent 2 else 0),
             r_tp_breakdown = rows \<rparr>)))"

subsection \<open>Portfolio profit\<close>

record stats =
  total_pl_percent :: real
  wins :: nat
  losses :: nat
  win_rate :: real
  signal_results :: "(int \<times> string \<times> nat \<times> real) list"

text \<open>
  The loop \<open>for signal in self.signals\<close> of \<open>calculate_portfolio_profit\<close>, with the
  running \<open>total_pl\<close>, \<open>wins\<close>, \<open>losses\<close> and \<open>signal_results\<close>.
\<close>

fun portfolio_loop ::
  "signal list \<Rightarrow> real list \<Rightarrow> real \<times> nat \<times> nat \<times> (int \<times> string \<times> nat \<times> real) list
     \<Rightarrow> error + (real \<times> nat \<times> nat \<times> (int \<times> string \<times> nat \<times> real) list)" where
  "portfolio_loop [] strategy acc = Inr acc"
| "portfolio_loop (s # rest) strategy (total_pl, w, l, res) =
     bind_err (calculate_signal_profit s strategy) (\<lambda>profit.
       portfolio_loop rest strategy
         (total_pl + profit,
          (if 0 < profit then w + 1 else w),
          (if 0 < profit then l else if profit < 0 then l + 1 else l),
          res @ [(signal_number s, symbol s, highest_tp s, profit)]))"

definition calculate_portfolio_profit :: "signal list \<Rightarrow> real list \<Rightarrow> error + (real \<times> stats)" where
  "calculate_portfolio_profit signals strategy =
     bind_err (portfolio_loop signals strategy (0, 0, 0, [])) (\<lambda>(total_pl, w, l, res).
       Inr (total_pl,
            \<lparr> total_pl_percent = total_pl, wins = w, losses = l,
              win_rate = (if signals \<noteq> [] then real w / real (length signals) * 100 else 0),
              signal_results = res \<rparr>))"

subsection \<open>Strategy generation\<close>

text \<open>
  \<open>list(range(0, 101, step))\<close>; \<open>range\<close> raises \<open>ValueError\<close> for a zero step. The step
  is a natural number here: a negative step gives the empty range in Python and is left
  out.
\<close>

definition percentages :: "nat \<Rightarrow> error + nat list" where
  "percentages step =
     (if step = 0 then Inl ValueError
      else Inr (map (\<lambda>k. k * step) [0..<100 div step + 1]))"

text \<open>
  The two loop nests of \<open>generate_strategies\<close>, as list comprehensions. The test is on
  the integer percentages. The fraction \<open>tp / 100\<close> is the exact quotient here and the
  nearest float in the code, so sums of the fractions of a candidate are exact here and
  may be off in the last place there; the properties below are stated on the
  percentages and use of the fractions only that different percentages give different
  fractions.
\<close>

definition strategies_tp5 :: "nat list \<Rightarrow> real list list" where
  "strategies_tp5 ps =
     [[real a / 100, real b / 100, real c / 100, real d / 100, real e / 100, 0.0].
        a \<leftarrow> ps, b \<leftarrow> ps, c \<leftarrow> ps, d \<leftarrow> ps, e \<leftarrow> ps, a + b + c + d + e = 100]"

definition strategies_tp6 :: "nat list \<Rightarrow> real list list" where
  "strategies_tp6 ps =
     [[real a / 100, real b / 100, real c / 100, real d / 100, real e / 100, real f / 100].
        a \<leftarrow> ps, b \<leftarrow> ps, c \<leftarrow> ps, d \<leftarrow> ps, e \<leftarrow> ps, f \<leftarrow> ps,
        a + b + c + d + e + f = 100]"

definition generate_strategies :: "nat \<Rightarrow> bool \<Rightarrow> error + real list list" where
  "generate_strategies step include_tp6 =
     bind_err (percentages step) (\<lambda>ps.
       if \<not> include_tp6 then Inr (strategies_tp5 ps) else Inr (strategies_tp6 ps))"

text \<open>
  The number of ways to extend a partial sum \<open>a\<close> to exactly 100 with \<open>k\<close> further
  percentages from \<open>ps\<close>: the number of times the innermost test of the loop nest
  succeeds.
\<close>

fun comps :: "nat list \<Rightarrow> nat \<Rightarrow> nat \<Rightarrow> nat" where
  "comps ps 0 a = (if a = 100 then 1 else 0)"
| "comps ps (Suc k) a = sum_list (map (\<lambda>p. comps ps k (a + p)) ps)"

subsection \<open>Improvement over the baseline\<close>

text \<open>
  The figure printed for each of the top strategies:
  \<open>((pl - baseline_pl) / abs(baseline_pl) * 100) if baseline_pl != 0 else 0\<close>.
\<close>

definition improvement :: "real \<Rightarrow> real \<Rightarrow> error + real" where
  "improvement pl baseline_pl =
     (if baseline_pl \<noteq> 0
      then bind_err (py_truediv (pl - baseline_pl) \<bar>baseline_pl\<bar>) (\<lambda>q. Inr (q * 100))
      else Inr 0)"

text \<open>
  The figure printed for the recommended strategy, which has no such test:
  \<open>(best_strategy['total_pl'] - baseline_pl) / abs(baseline_pl) * 100\<close>.
\<close>

definition recommended_improvement :: "real \<Rightarrow> real \<Rightarrow> error + real" where
  "recommended_improvement pl baseline_pl =
     bind_err (py_truediv (pl - baseline_pl) \<bar>baseline_pl\<bar>) (\<lambda>q. Inr (q * 100))"

subsection \<open>Example signals\<close>

text \<open>A gold BUY at 2000 whose first target, 2010, was reached; medium risk.\<close>

definition xau_tp1 :: signal where
  "xau_tp1 = \<lparr> signal_number = 1, symbol = ''XAUUSD'', action = ''BUY'',
       entry_price = Some 2000, stop_loss = Some 1990,
       tp1 = Some 2010, tp2 = Some 2020, tp3 = None, tp4 = None, tp5 = None, tp6 = None,
       risk_level = Some ''MEDIUM'', tps_hit = [1] \<rparr>"

text \<open>The same signal with the second target, 2020, reached as well.\<close>

definition xau_tp2 :: signal where
  "xau_tp2 = xau_tp1 \<lparr> signal_number := 2, tps_hit := [1, 2] \<rparr>"


text \<open>A high-risk EURUSD SELL that reached no target.\<close>

definition eur_sl :: signal where
  "eur_sl = \<lparr> signal_number = 3, symbol = ''EURUSD'', action = ''SELL'',
       entry_price = Some 1.1, stop_loss = Some 1.105,
       tp1 = Some 1.095, tp2 = None, tp3 = None, tp4 = None, tp5 = None, tp6 = None,
       risk_level = Some ''HIGH'', tps_hit = [] \<rparr>"

text \<open>Risk levels that are neither of the three words.\<close>

definition xau_odd_risk :: signal where
  "xau_odd_risk = xau_tp1 \<lparr> signal_number := 4, risk_level := Some ''medium'' \<rparr>"

text \<open>Rows with no entry price, and with an entry price of zero.\<close>

definition xau_no_entry :: signal where
  "xau_no_entry = xau_tp1 \<lparr> signal_number := 5, entry_price := None \<rparr>"

definition xau_zero_entry :: signal where
  "xau_zero_entry = xau_tp1 \<lparr> signal_number := 6, entry_price := Some 0 \<rparr>"

text \<open>A BUY whose recorded first target lies below the entry.\<close>

definition xau_losing_side :: signal where
  "xau_losing_side = xau_tp1 \<lparr> signal_number := 7, tp1 := Some 1990 \<rparr>"

text \<open>The same signal with a negative entry price.\<close>

definition xau_negative_entry :: signal where
  "xau_negative_entry = xau_tp1 \<lparr> signal_number := 10, entry_price := Some (- 2000) \<rparr>"

text \<open>
  A portfolio whose profit under the default strategy is zero: a medium-risk stop-loss
  and a gold BUY whose first target gives \<open>+2\<close>.
\<close>

definition zero_portfolio :: "signal list" where
  "zero_portfolio =
     [eur_sl \<lparr> signal_number := 8, risk_level := Some ''MEDIUM'' \<rparr>,
      xau_tp1 \<lparr> signal_number := 9, tp1 := Some 2008 \<rparr>]"

section \<open>Properties\<close>

subsection \<open>Rounding and the constants of the evaluators\<close>

lemma round_half_even_of_int: "round_half_even (of_int k) = k"
  by (simp add: round_half_even_def)

lemma py_round_of_int: "py_round (of_int k) n = of_int k"
proof -
  have "(of_int k :: real) * 10 ^ n = of_int (k * 10 ^ n)" by simp
  then have "round_half_even (of_int k * 10 ^ n) = k * 10 ^ n"
    by (simp only: round_half_even_of_int)
  then show ?thesis by (simp add: py_round_def)
qed

lemma round_half_even_nonneg: "0 \<le> x \<Longrightarrow> 0 \<le> round_half_even x"
  by (auto simp: round_half_even_def Let_def)

lemma py_round_nonneg: "0 \<le> x \<Longrightarrow> 0 \<le> py_round x n"
  by (simp add: py_round_def round_half_even_nonneg)

lemma pip_multiplier_pos: "0 < pip_multiplier name"
  by (simp add: pip_multiplier_def)

lemma risk_percent_get_cases:
  "risk_percent_get rl = (if rl = Some ''LOW'' then 1 else if rl = Some ''HIGH'' then 3 else 2)"
  by (simp add: risk_percent_get_def)

lemma risk_percent_row_cases:
  "risk_percent_row rl = (if rl = Some ''LOW'' then 1 else if rl = Some ''HIGH'' then 3 else 2)"
  by (auto simp: risk_percent_row_def split: option.splits)

lemma risk_percent_row_int:
  "risk_percent_row rl =
     of_int (if rl = Some ''LOW'' then 1 else if rl = Some ''HIGH'' then 3 else 2)"
  by (simp add: risk_percent_row_cases)

subsection \<open>Stop-loss outcomes\<close>

lemma pips_and_profit_sl:
  "highest_tp s = 0 \<Longrightarrow> \<exists>p. pips_and_profit s x = Inr (p, - risk_percent_row (risk_level s))"
  using pip_multiplier_pos [of "symbol s"]
  by (auto simp: pips_and_profit_def Let_def bind_err_def signed_pips_def py_truediv_def
      split: option.splits)

lemma evaluate_row_sl:
  assumes "highest_tp s = 0"
  shows "\<exists>r. evaluate_row s = Inr r \<and> r_profit_percent r = - risk_percent_row (risk_level s)"
proof -
  obtain p where p: "pips_and_profit s (stop_loss s) = Inr (p, - risk_percent_row (risk_level s))"
    using pips_and_profit_sl [OF assms] by blast
  have "py_round (- risk_percent_row (risk_level s)) 2 = - risk_percent_row (risk_level s)"
    unfolding risk_percent_row_int by (simp only: py_round_of_int flip: of_int_minus)
  moreover have "risk_percent_row (risk_level s) \<noteq> 0"
    by (simp add: risk_percent_row_cases)
  ultimately show ?thesis
    using assms p by (simp add: evaluate_row_def bind_err_def)
qed

text \<open>
  C2. A signal that reached no target (\<open>highest_tp = 0\<close>, in particular an empty
  \<open>tps_hit\<close>) loses its risk percentage, whatever the strategy: both evaluators return
  \<open>-1\<close> for LOW, \<open>-3\<close> for HIGH and \<open>-2\<close> otherwise, and neither raises.
\<close>

theorem stop_loss_profit_is_minus_risk:
  assumes "highest_tp s = 0"
  shows "calculate_signal_profit s strategy
           = Inr (if risk_level s = Some ''LOW'' then - 1
                  else if risk_level s = Some ''HIGH'' then - 3 else - 2)
       \<and> (\<exists>r. evaluate_row s = Inr r
              \<and> r_profit_percent r = (if risk_level s = Some ''LOW'' then - 1
                  else if risk_level s = Some ''HIGH'' then - 3 else - 2))"
proof -
  obtain r where r: "evaluate_row s = Inr r"
      "r_profit_percent r = - risk_percent_row (risk_level s)"
    using evaluate_row_sl [OF assms] by blast
  have "calculate_signal_profit s strategy = Inr (- risk_percent_get (risk_level s))"
    using assms by (simp add: calculate_signal_profit_def)
  then show ?thesis
    using r by (simp add: risk_percent_get_cases risk_percent_row_cases)
qed

theorem stop_loss_profit_is_minus_risk_witness:
  "highest_tp eur_sl = 0
   \<and> calculate_signal_profit eur_sl [0.25, 0.25, 0.25, 0.25, 0, 0] = Inr (- 3)
   \<and> (\<exists>r. evaluate_row eur_sl = Inr r \<and> r_profit_percent r = - 3)"
proof -
  have h: "highest_tp eur_sl = 0"
    by (simp add: highest_tp_def eur_sl_def)
  show ?thesis
    using h stop_loss_profit_is_minus_risk [OF h, of "[0.25, 0.25, 0.25, 0.25, 0, 0]"]
    by (simp add: eur_sl_def)
qed

subsection \<open>Risk levels\<close>

lemma tp_get_risk_level: "tp_get (s\<lparr>risk_level := x\<rparr>) n = tp_get s n"
  by (simp add: tp_get_def)

lemma highest_tp_risk_level: "highest_tp (s\<lparr>risk_level := x\<rparr>) = highest_tp s"
  by (simp add: highest_tp_def)

lemma tp_loop_risk_level:
  "tp_loop (s\<lparr>risk_level := x\<rparr>) strategy entry rp levels acc
     = tp_loop s strategy entry rp levels acc"
  by (induction levels arbitrary: acc)
     (simp_all add: tp_get_risk_level Let_def bind_err_def split: option.splits sum.splits)

lemma breakdown_loop_medium:
  assumes "rl \<noteq> Some ''LOW''" "rl \<noteq> Some ''HIGH''" "risk_level s = rl"
  shows "breakdown_loop (s\<lparr>risk_level := Some ''MEDIUM''\<rparr>) x levels = breakdown_loop s x levels"
  using assms
  by (induction levels)
     (simp_all add: row_tp_def tp_get_risk_level breakdown_row_def risk_percent_row_cases
        cong: option.case_cong if_cong)

text \<open>
  C10. A risk level that is neither the string LOW nor the string HIGH (absent, empty,
  lower case, misspelt) counts as MEDIUM: both risk tables give 2, and both evaluators
  return what they return for the same signal marked MEDIUM.
\<close>

theorem other_risk_levels_are_medium:
  assumes "risk_level s \<noteq> Some ''LOW''" and "risk_level s \<noteq> Some ''HIGH''"
  shows "risk_percent_get (risk_level s) = 2 \<and> risk_percent_row (risk_level s) = 2.0
       \<and> calculate_signal_profit s strategy
           = calculate_signal_profit (s\<lparr>risk_level := Some ''MEDIUM''\<rparr>) strategy
       \<and> evaluate_row s = evaluate_row (s\<lparr>risk_level := Some ''MEDIUM''\<rparr>)"
proof -
  have g: "risk_percent_get (risk_level s) = 2" "risk_percent_row (risk_level s) = 2"
    using assms by (simp_all add: risk_percent_get_cases risk_percent_row_cases)
  have c: "calculate_signal_profit s strategy
           = calculate_signal_profit (s\<lparr>risk_level := Some ''MEDIUM''\<rparr>) strategy"
    using assms by (simp add: calculate_signal_profit_def highest_tp_risk_level
        tp_loop_risk_level risk_percent_get_cases split: option.splits)
  have p: "pips_and_profit (s\<lparr>risk_level := Some ''MEDIUM''\<rparr>) x = pips_and_profit s x" for x
    using assms by (simp add: pips_and_profit_def highest_tp_risk_level risk_percent_row_cases
        split: option.splits prod.splits)
  have e: "evaluate_row s = evaluate_row (s\<lparr>risk_level := Some ''MEDIUM''\<rparr>)"
    using p breakdown_loop_medium [OF assms refl]
    by (simp add: evaluate_row_def highest_tp_risk_level row_tp_def tp_get_risk_level)
  show ?thesis using g c e by simp
qed

theorem other_risk_levels_are_medium_witness:
  "risk_level xau_odd_risk \<noteq> Some ''LOW'' \<and> risk_level xau_odd_risk \<noteq> Some ''HIGH''
   \<and> risk_percent_get (risk_level xau_odd_risk) = 2
   \<and> risk_percent_row (risk_level xau_odd_risk) = 2
   \<and> calculate_signal_profit xau_odd_risk default_strategy
       = calculate_signal_profit (xau_odd_risk\<lparr>risk_level := Some ''MEDIUM''\<rparr>) default_strategy
   \<and> evaluate_row xau_odd_risk = evaluate_row (xau_odd_risk\<lparr>risk_level := Some ''MEDIUM''\<rparr>)"
proof -
  have l: "risk_level xau_odd_risk \<noteq> Some ''LOW''"
    and h: "risk_level xau_odd_risk \<noteq> Some ''HIGH''"
    by (simp_all add: xau_odd_risk_def)
  show ?thesis
    using l h other_risk_levels_are_medium [OF l h, of default_strategy] by simp
qed

subsection \<open>The signal-history evaluator returns\<close>

lemma signed_pips_ok: "\<exists>v. signed_pips a p e (pip_multiplier name) = Inr v"
  using pip_multiplier_pos [of name] by (simp add: signed_pips_def py_truediv_def)

lemma breakdown_row_ok: "\<exists>r. breakdown_row s x lvl p = Inr r"
proof -
  obtain v where v: "signed_pips (action s) p (the (entry_price s)) (pip_multiplier (symbol s)) = Inr v"
    using signed_pips_ok by blast
  then show ?thesis
    by (auto simp: breakdown_row_def bind_err_def py_truediv_def Let_def split: option.splits)
qed

lemma breakdown_loop_ok:
  "\<forall>l \<in> set levels. 1 \<le> l \<and> l \<le> 6 \<Longrightarrow> \<exists>rows. breakdown_loop s x levels = Inr rows"
proof (induction levels)
  case Nil
  then show ?case by simp
next
  case (Cons l levels)
  then obtain rows where rows: "breakdown_loop s x levels = Inr rows" by auto
  obtain r where r: "breakdown_row s x l (the (tp_get s l)) = Inr r"
    using breakdown_row_ok by blast
  from Cons.prems have "row_tp s l = Inr (tp_get s l)" by (simp add: row_tp_def)
  with rows r show ?case
    by (auto simp: bind_err_def split: option.splits)
qed

lemma pips_and_profit_ok: "\<exists>p q. pips_and_profit s x = Inr (p, q)"
proof -
  obtain v where v: "signed_pips (action s) (the x) (the (entry_price s)) (pip_multiplier (symbol s)) = Inr v"
    using signed_pips_ok by blast
  then show ?thesis
    by (auto simp: pips_and_profit_def bind_err_def py_truediv_def Let_def split: option.splits)
qed

lemma exit_price_ok:
  "highest_tp s \<le> 6 \<Longrightarrow>
   (if highest_tp s = 0 then Inr (stop_loss s) else row_tp s (highest_tp s))
     = Inr (if highest_tp s = 0 then stop_loss s else tp_get s (highest_tp s))"
  by (simp add: row_tp_def)

lemma evaluate_row_result:
  assumes "highest_tp s \<le> 6"
    and "x = (if highest_tp s = 0 then stop_loss s else tp_get s (highest_tp s))"
    and "pips_and_profit s x = Inr (p, q)"
  shows "\<exists>r. evaluate_row s = Inr r
            \<and> r_pips r = (if p \<noteq> 0 then py_round p 1 else 0)
            \<and> r_profit_percent r = (if q \<noteq> 0 then py_round q 2 else 0)
            \<and> breakdown_loop s x [1..<highest_tp s + 1] = Inr (r_tp_breakdown r)"
proof -
  have "\<forall>l \<in> set [1..<highest_tp s + 1]. 1 \<le> l \<and> l \<le> 6"
    using assms(1) by auto
  then obtain rows where "breakdown_loop s x [1..<highest_tp s + 1] = Inr rows"
    using breakdown_loop_ok by blast
  then show ?thesis
    using assms exit_price_ok [OF assms(1)]
    by (simp add: evaluate_row_def bind_err_def)
qed

subsection \<open>The gold scenario\<close>

lemma py_round_5_2: "py_round (5 / 2) 2 = 5 / 2"
  by (simp add: py_round_def round_half_even_def)

lemma py_round_100: "py_round 100 n = 100"
  using py_round_of_int [of 100 n] by simp

text \<open>
  C3. A gold BUY at 2000 with the first target at 2010, only that target reached and
  medium risk: under the default strategy the optimizer's evaluator returns 2.5, and the
  signal-history evaluator reports a profit of 2.5 percent and 100 pips.
\<close>

theorem xauusd_tp1_scenario:
  assumes "symbol s = ''XAUUSD''" and "action s = ''BUY''" and "entry_price s = Some 2000"
    and "tp1 s = Some 2010" and "highest_tp s = 1" and "risk_level s = Some ''MEDIUM''"
  shows "calculate_signal_profit s default_strategy = Inr 2.5
       \<and> (\<exists>r. evaluate_row s = Inr r \<and> r_profit_percent r = 2.5 \<and> r_pips r = 100.0)"
proof -
  have c: "calculate_signal_profit s default_strategy = Inr 2.5"
    using assms
    by (simp add: calculate_signal_profit_def default_strategy_def tp_get_def bind_err_def
        py_truediv_def risk_percent_get_def)
  have pm: "pip_multiplier ''XAUUSD'' = 1 / 10"
    by (simp add: pip_multiplier_def)
  have x: "Some 2010 = (if highest_tp s = 0 then stop_loss s else tp_get s (highest_tp s))"
    using assms by (simp add: tp_get_def)
  have pp: "pips_and_profit s (Some 2010) = Inr (100, 5 / 2)"
    using assms
    by (simp add: pm pips_and_profit_def bind_err_def signed_pips_def py_truediv_def
        cumulative_exit_def risk_percent_row_cases)
  have "\<exists>r. evaluate_row s = Inr r \<and> r_profit_percent r = 2.5 \<and> r_pips r = 100.0"
    using evaluate_row_result [OF _ x pp] assms(5)
    by (auto simp: py_round_5_2 py_round_100)
  with c show ?thesis by simp
qed

theorem xauusd_tp1_scenario_witness:
  "symbol xau_tp1 = ''XAUUSD'' \<and> action xau_tp1 = ''BUY'' \<and> entry_price xau_tp1 = Some 2000
   \<and> tp1 xau_tp1 = Some 2010 \<and> highest_tp xau_tp1 = 1 \<and> risk_level xau_tp1 = Some ''MEDIUM''
   \<and> calculate_signal_profit xau_tp1 default_strategy = Inr 2.5
   \<and> (\<exists>r. evaluate_row xau_tp1 = Inr r \<and> r_profit_percent r = 2.5 \<and> r_pips r = 100.0)"
proof -
  have h: "symbol xau_tp1 = ''XAUUSD''" "action xau_tp1 = ''BUY''"
    "entry_price xau_tp1 = Some 2000" "tp1 xau_tp1 = Some 2010" "highest_tp xau_tp1 = 1"
    "risk_level xau_tp1 = Some ''MEDIUM''"
    by (simp_all add: xau_tp1_def highest_tp_def)
  show ?thesis using h xauusd_tp1_scenario [OF h] by simp
qed


subsection \<open>The optimizer's loop\<close>


lemma tp_get_beyond: "6 \<le> i \<Longrightarrow> tp_get s (i + 1) = None"
  by (simp add: tp_get_def)

lemma tp_loop_ok:
  assumes "6 \<le> length strategy" and "entry \<noteq> 0"
  shows "\<exists>v. tp_loop s strategy entry rp levels acc = Inr v"
proof (induction levels arbitrary: acc)
  case Nil
  then show ?case by simp
next
  case (Cons i levels)
  show ?case
  proof (cases "i < length strategy")
    case True
    then show ?thesis
      using Cons.IH assms(2)
      by (simp add: bind_err_def py_truediv_def Let_def split: option.splits)
  next
    case False
    then have "tp_get s (i + 1) = None"
      using assms(1) by (intro tp_get_beyond) simp
    then show ?thesis using Cons.IH by simp
  qed
qed

lemma tp_loop_nonneg:
  assumes "6 \<le> length strategy" and "0 < entry" and "0 \<le> rp"
    and "\<forall>f \<in> set strategy. 0 \<le> f"
  shows "0 \<le> acc \<Longrightarrow> \<exists>v. tp_loop s strategy entry rp levels acc = Inr v \<and> 0 \<le> v"
proof (induction levels arbitrary: acc)
  case Nil
  then show ?case by simp
next
  case (Cons i levels)
  show ?case
  proof (cases "i < length strategy")
    case True
    then have f: "0 \<le> strategy ! i"
      using assms(4) by simp
    show ?thesis
    proof (cases "tp_get s (i + 1)")
      case None
      then show ?thesis using Cons.IH Cons.prems by simp
    next
      case (Some p)
      show ?thesis
      proof (cases "p = 0")
        case True
        then show ?thesis using Some Cons.IH Cons.prems by simp
      next
        case False
        let ?acc = "acc + (\<bar>p - entry\<bar> / entry * 100 * 500 * strategy ! i) * (rp / 100)"
        have step: "tp_loop s strategy entry rp (i # levels) acc
                      = tp_loop s strategy entry rp levels ?acc"
          using Some False \<open>i < length strategy\<close> assms(2)
          by (simp add: bind_err_def py_truediv_def Let_def mult_ac)
        have "0 \<le> ?acc"
          using Cons.prems f assms(2,3) by simp
        then show ?thesis
          unfolding step by (rule Cons.IH)
      qed
    qed
  next
    case False
    then have "tp_get s (i + 1) = None"
      using assms(1) by (intro tp_get_beyond) simp
    then show ?thesis using Cons.IH Cons.prems by simp
  qed
qed


text \<open>
  C4 (amended). The optimizer's evaluator has no check on the strategy and no
  InvalidStrategy condition: for every list of six fractions, whatever their sum, and
  every signal with an entry price it returns a number.
\<close>

theorem six_fractions_always_evaluated:
  assumes "length strategy = 6" and "entry_price s \<noteq> None"
  shows "\<exists>v. calculate_signal_profit s strategy = Inr v"
proof -
  obtain e where e: "entry_price s = Some e" using assms(2) by auto
  have "\<exists>v. tp_loop s strategy e rp levels 0 = Inr v" if "e \<noteq> 0" for rp levels
    using tp_loop_ok [of strategy e] assms(1) that by simp
  then show ?thesis
    using e by (auto simp: calculate_signal_profit_def)
qed

subsection \<open>Profit of a TP outcome\<close>

lemma pips_and_profit_nonneg:
  assumes "0 < highest_tp s" and "\<forall>e. entry_price s = Some e \<longrightarrow> 0 \<le> e"
    and "pips_and_profit s x = Inr (p, q)"
  shows "0 \<le> q"
proof -
  have c: "0 \<le> cumulative_exit h b" for h b
    by (simp add: cumulative_exit_def)
  have r: "0 \<le> risk_percent_row rl" for rl
    by (simp add: risk_percent_row_cases)
  show ?thesis
    using assms c r
    by (auto simp: pips_and_profit_def bind_err_def signed_pips_def py_truediv_def Let_def
        split: option.splits if_splits
        intro!: mult_nonneg_nonneg divide_nonneg_nonneg)
qed

text \<open>
  C9 (amended). For a signal that reached a target and whose entry price is not
  negative, the profit is never negative: the optimizer's evaluator, given an entry
  price, returns a number \<open>\<ge> 0\<close> for every strategy of six non-negative fractions, and
  the signal-history evaluator, for \<open>highest_tp\<close> up to 6, reports a profit \<open>\<ge> 0\<close>. The
  direction of the signal and the side of the entry on which a target lies play no part.
  Only the numerator of the price move is an absolute value: the move is divided by the
  entry price as it is, so a negative entry price gives a negative profit.
\<close>

theorem tp_profit_never_negative:
  assumes "1 \<le> highest_tp s"
    and "\<forall>e. entry_price s = Some e \<longrightarrow> 0 \<le> e"
    and "length strategy = 6" and "\<forall>f \<in> set strategy. 0 \<le> f"
  shows "(entry_price s \<noteq> None \<longrightarrow> (\<exists>v. calculate_signal_profit s strategy = Inr v \<and> 0 \<le> v))
       \<and> (highest_tp s \<le> 6 \<longrightarrow> (\<exists>r. evaluate_row s = Inr r \<and> 0 \<le> r_profit_percent r))"
proof -
  have opt: "\<exists>v. calculate_signal_profit s strategy = Inr v \<and> 0 \<le> v"
    if e: "entry_price s = Some e" for e
  proof (cases "e = 0")
    case True
    then show ?thesis using e assms(1) by (simp add: calculate_signal_profit_def)
  next
    case False
    then have "0 < e" using assms(2) e by fastforce
    moreover have "0 \<le> risk_percent_get (risk_level s)"
      by (simp add: risk_percent_get_cases)
    ultimately have "\<exists>v. tp_loop s strategy e (risk_percent_get (risk_level s))
                       [0..<highest_tp s] 0 = Inr v \<and> 0 \<le> v"
      using assms(3,4) by (intro tp_loop_nonneg) simp_all
    then show ?thesis
      using e False assms(1) by (simp add: calculate_signal_profit_def)
  qed
  obtain p q where pq:
    "pips_and_profit s (if highest_tp s = 0 then stop_loss s else tp_get s (highest_tp s)) = Inr (p, q)"
    using pips_and_profit_ok by blast
  have "0 \<le> q"
    using pips_and_profit_nonneg [OF _ assms(2) pq] assms(1) by simp
  then have "0 \<le> (if q \<noteq> 0 then py_round q 2 else 0)"
    by (simp add: py_round_nonneg)
  then have "\<exists>r. evaluate_row s = Inr r \<and> 0 \<le> r_profit_percent r" if "highest_tp s \<le> 6"
    using evaluate_row_result [OF that refl pq] by auto
  with opt show ?thesis by auto
qed


theorem tp_profit_never_negative_witness:
  "1 \<le> highest_tp xau_losing_side \<and> highest_tp xau_losing_side \<le> 6
   \<and> entry_price xau_losing_side = Some 2000 \<and> tp1 xau_losing_side = Some 1990
   \<and> default_strategy = [0.5, 0.2, 0.1, 0.1, 0.1, 0]
   \<and> (\<exists>v. calculate_signal_profit xau_losing_side default_strategy = Inr v \<and> 0 \<le> v)
   \<and> (\<exists>r. evaluate_row xau_losing_side = Inr r \<and> 0 \<le> r_profit_percent r)"
proof -
  have h: "1 \<le> highest_tp xau_losing_side"
    "\<forall>e. entry_price xau_losing_side = Some e \<longrightarrow> 0 \<le> e"
    "length default_strategy = 6" "\<forall>f \<in> set default_strategy. 0 \<le> f"
    by (simp_all add: xau_losing_side_def xau_tp1_def highest_tp_def default_strategy_def)
  have n: "entry_price xau_losing_side \<noteq> None" "highest_tp xau_losing_side \<le> 6"
    by (simp_all add: xau_losing_side_def xau_tp1_def highest_tp_def)
  show ?thesis
    using h n tp_profit_never_negative [OF h]
    by (simp add: xau_losing_side_def xau_tp1_def default_strategy_def)
qed

theorem negative_entry_counterexample:
  "1 \<le> highest_tp xau_negative_entry
   \<and> default_strategy = [0.5, 0.2, 0.1, 0.1, 0.1, 0]
   \<and> calculate_signal_profit xau_negative_entry default_strategy = Inr (- 1002.5)
   \<and> map_sum id r_profit_percent (evaluate_row xau_negative_entry) = Inr (- 1002.5)"
proof -
  have pm: "pip_multiplier ''XAUUSD'' = 1 / 10"
    by (simp add: pip_multiplier_def)
  have r: "py_round (- (2005 / 2)) 2 = - (2005 / 2)" "py_round 2010 n = 2010"
    "py_round 40100 n = 40100" for n
    using py_round_of_int [of 2010 n] py_round_of_int [of 40100 n]
    by (simp_all add: py_round_def round_half_even_def)
  have c: "calculate_signal_profit xau_negative_entry default_strategy = Inr (- 1002.5)"
    by (simp add: calculate_signal_profit_def xau_negative_entry_def xau_tp1_def highest_tp_def
        default_strategy_def tp_get_def bind_err_def py_truediv_def risk_percent_get_def)
  have e: "map_sum id r_profit_percent (evaluate_row xau_negative_entry) = Inr (- 1002.5)"
    by (simp add: evaluate_row_def xau_negative_entry_def xau_tp1_def highest_tp_def
        row_tp_def tp_get_def bind_err_def pips_and_profit_def signed_pips_def py_truediv_def
        pm cumulative_exit_def partial_exit_def risk_percent_row_cases breakdown_row_def
        truthy_def upt_rec r)
  show ?thesis
    using c e by (simp add: xau_negative_entry_def xau_tp1_def highest_tp_def default_strategy_def)
qed

theorem six_fractions_always_evaluated_witness:
  "length [0.3, 0.3, 0.3, 0.3, 0.3, 0.3 :: real] = 6 \<and> entry_price xau_tp2 \<noteq> None
   \<and> (\<exists>v. calculate_signal_profit xau_tp2 [0.3, 0.3, 0.3, 0.3, 0.3, 0.3] = Inr v)"
proof -
  have l: "length [0.3, 0.3, 0.3, 0.3, 0.3, 0.3 :: real] = 6" by simp
  have n: "entry_price xau_tp2 \<noteq> None" by (simp add: xau_tp2_def xau_tp1_def)
  show ?thesis
    using l n six_fractions_always_evaluated [OF l n] by simp
qed

theorem invalid_strategy_counterexample:
  "sum_list [1, 1, 1, 1, 1, 1 :: real] = 6
   \<and> calculate_signal_profit xau_tp1 [1, 1, 1, 1, 1, 1] = Inr 5"
  by (simp add: calculate_signal_profit_def xau_tp1_def highest_tp_def tp_get_def
      bind_err_def py_truediv_def risk_percent_get_def)

text \<open>
  C8 (amended). For a signal that reached a target and whose entry price is zero or
  absent, the signal-history evaluator (for \<open>highest_tp\<close> up to 6) returns a profit of
  0 and 0 pips and does not raise; the optimizer's evaluator returns 0 when the entry
  price is zero. With an absent entry price the optimizer's evaluator raises
  \<open>TypeError\<close>; its loader reads only rows that have one.
\<close>

theorem missing_entry_gives_zero:
  assumes "1 \<le> highest_tp s"
    and "entry_price s = None \<or> entry_price s = Some 0"
  shows "(highest_tp s \<le> 6 \<longrightarrow>
           (\<exists>r. evaluate_row s = Inr r \<and> r_profit_percent r = 0 \<and> r_pips r = 0))
       \<and> (entry_price s = Some 0 \<longrightarrow> calculate_signal_profit s strategy = Inr 0)"
proof -
  have "pips_and_profit s x = Inr (0, 0)" for x
    using assms by (auto simp: pips_and_profit_def split: option.splits)
  then have "\<exists>r. evaluate_row s = Inr r \<and> r_profit_percent r = 0 \<and> r_pips r = 0"
    if "highest_tp s \<le> 6"
    using evaluate_row_result [OF that refl, of 0 0] by auto
  moreover have "calculate_signal_profit s strategy = Inr 0" if "entry_price s = Some 0"
    using that assms(1) by (simp add: calculate_signal_profit_def)
  ultimately show ?thesis by simp
qed

theorem missing_entry_gives_zero_witness:
  "1 \<le> highest_tp xau_zero_entry \<and> highest_tp xau_zero_entry \<le> 6
   \<and> entry_price xau_zero_entry = Some 0
   \<and> (\<exists>r. evaluate_row xau_zero_entry = Inr r \<and> r_profit_percent r = 0 \<and> r_pips r = 0)
   \<and> calculate_signal_profit xau_zero_entry default_strategy = Inr 0"
proof -
  have h: "1 \<le> highest_tp xau_zero_entry"
    and l: "highest_tp xau_zero_entry \<le> 6"
    and e: "entry_price xau_zero_entry = Some 0"
    by (simp_all add: xau_zero_entry_def xau_tp1_def highest_tp_def)
  have "entry_price xau_zero_entry = None \<or> entry_price xau_zero_entry = Some 0"
    using e by simp
  from missing_entry_gives_zero [OF h this, of default_strategy] show ?thesis
    using h l e by simp
qed

theorem missing_entry_counterexample:
  "highest_tp xau_no_entry = 1 \<and> entry_price xau_no_entry = None
   \<and> calculate_signal_profit xau_no_entry default_strategy = Inl TypeError"
  by (simp add: calculate_signal_profit_def xau_no_entry_def xau_tp1_def highest_tp_def)


subsection \<open>The breakdown and the reported profit\<close>












subsection \<open>Improvement over a zero baseline\<close>

text \<open>
  C5 (amended). When the baseline profit is exactly zero, the improvement printed for
  each of the top strategies is the number 0.
\<close>

theorem improvement_zero_baseline: "improvement pl 0 = Inr 0"
  by (simp add: improvement_def)

lemma recommended_raises_on_zero_baseline:
  "recommended_improvement pl 0 = Inl ZeroDivisionError"
  by (simp add: recommended_improvement_def py_truediv_def bind_err_def)

theorem improvement_counterexample:
  "map_sum id fst (calculate_portfolio_profit zero_portfolio default_strategy) = Inr 0
   \<and> map_sum id fst (calculate_portfolio_profit zero_portfolio [1, 0, 0, 0, 0, 0]) = Inr 2
   \<and> improvement 2 0 = Inr 0"
  by (simp add: calculate_portfolio_profit_def zero_portfolio_def eur_sl_def xau_tp1_def
      default_strategy_def calculate_signal_profit_def highest_tp_def tp_get_def
      bind_err_def py_truediv_def risk_percent_get_def improvement_def)

subsection \<open>Pip sizing\<close>

lemma py_in_sublist: "py_in sub name \<longleftrightarrow> sublist sub name"
  by (induction name) (simp_all add: sublist_Cons_right)

lemma py_in_occurs: "py_in sub name \<longleftrightarrow> (\<exists>p q. name = p @ sub @ q)"
  by (simp add: py_in_sublist sublist_def)

text \<open>
  C7. The pip multiplier of a symbol is decided by substring tests, in this order of
  priority: XAU or GOLD gives 0.10; otherwise BTC or BITCOIN gives 1.0; otherwise NAS,
  US100 or NDX gives 1.0; otherwise JPY gives 0.01; every other symbol gives 0.0001.
\<close>

theorem pip_multiplier_priority:
  "(sublist ''XAU'' name \<or> sublist ''GOLD'' name \<longrightarrow> pip_multiplier name = 0.10)
   \<and> (\<not> (sublist ''XAU'' name \<or> sublist ''GOLD'' name)
        \<and> (sublist ''BTC'' name \<or> sublist ''BITCOIN'' name)
      \<longrightarrow> pip_multiplier name = 1.0)
   \<and> (\<not> (sublist ''XAU'' name \<or> sublist ''GOLD'' name)
        \<and> \<not> (sublist ''BTC'' name \<or> sublist ''BITCOIN'' name)
        \<and> (sublist ''NAS'' name \<or> sublist ''US100'' name \<or> sublist ''NDX'' name)
      \<longrightarrow> pip_multiplier name = 1.0)
   \<and> (\<not> (sublist ''XAU'' name \<or> sublist ''GOLD'' name)
        \<and> \<not> (sublist ''BTC'' name \<or> sublist ''BITCOIN'' name)
        \<and> \<not> (sublist ''NAS'' name \<or> sublist ''US100'' name \<or> sublist ''NDX'' name)
        \<and> sublist ''JPY'' name
      \<longrightarrow> pip_multiplier name = 0.01)
   \<and> (\<not> (sublist ''XAU'' name \<or> sublist ''GOLD'' name)
        \<and> \<not> (sublist ''BTC'' name \<or> sublist ''BITCOIN'' name)
        \<and> \<not> (sublist ''NAS'' name \<or> sublist ''US100'' name \<or> sublist ''NDX'' name)
        \<and> \<not> sublist ''JPY'' name
      \<longrightarrow> pip_multiplier name = 0.0001)"
  by (simp add: pip_multiplier_def py_in_sublist)

theorem pip_multiplier_priority_witness:
  "sublist ''XAU'' ''XAUJPY'' \<and> sublist ''JPY'' ''XAUJPY'' \<and> pip_multiplier ''XAUJPY'' = 0.10
   \<and> sublist ''BTC'' ''BTCJPY'' \<and> pip_multiplier ''BTCJPY'' = 1.0
   \<and> sublist ''US100'' ''US100.cash'' \<and> pip_multiplier ''US100.cash'' = 1.0
   \<and> sublist ''JPY'' ''USDJPY'' \<and> pip_multiplier ''USDJPY'' = 0.01
   \<and> pip_multiplier ''EURUSD'' = 0.0001"
  using pip_multiplier_priority [of "''XAUJPY''"] pip_multiplier_priority [of "''BTCJPY''"]
    pip_multiplier_priority [of "''US100.cash''"] pip_multiplier_priority [of "''USDJPY''"]
    pip_multiplier_priority [of "''EURUSD''"]
  by (simp add: sublist_code)

text \<open>Both branches of the signal-history evaluator divide by that multiplier.\<close>

lemma pips_use_pip_multiplier:
  assumes "x \<noteq> 0" and "entry_price s = Some e" and "e \<noteq> 0"
  shows "\<exists>q. pips_and_profit s (Some x)
           = Inr ((if action s = ''BUY'' then x - e else e - x) / pip_multiplier (symbol s), q)"
  using assms pip_multiplier_pos [of "symbol s"]
  by (simp add: pips_and_profit_def bind_err_def signed_pips_def py_truediv_def Let_def)


subsection \<open>Strategy generation with step 5\<close>

lemma length_concat_map:
  "length (concat (map f xs)) = sum_list (map (\<lambda>x. length (f x)) xs)"
  by (induction xs) simp_all

lemma length_strategies_tp5: "length (strategies_tp5 ps) = comps ps 5 0"
proof -
  have five: "5 = Suc (Suc (Suc (Suc (Suc 0))))" by simp
  have l: "length (if c then [x] else []) = (if c then 1 else 0)" for c and x :: "real list"
    by simp
  show ?thesis
    unfolding strategies_tp5_def five
    by (simp only: length_concat_map l comps.simps add_0)
qed

lemma hockey_stick: "(\<Sum>i<n. (k + i) choose k) = (k + n) choose Suc k"
  by (induction n) simp_all

lemma sum_list_fives: "sum_list (map g (map (\<lambda>k. k * 5) [0..<21])) = (\<Sum>i<21. g (i * 5))"
  by (simp add: interv_sum_list_conv_sum_set_nat comp_def atLeast0LessThan)

lemma comps_closed:
  "comps (map (\<lambda>k. k * 5) [0..<21]) (Suc k) (b * 5)
     = (if b \<le> 20 then (k + (20 - b)) choose k else 0)"
proof (induction k arbitrary: b)
  case 0
  have base: "comps (map (\<lambda>k. k * 5) [0..<21]) (Suc 0) (b * 5)
        = (\<Sum>i<21. if b * 5 + i * 5 = 100 then 1 else 0)"
    by (simp only: comps.simps sum_list_fives)
  show ?case
  proof (cases "b \<le> 20")
    case True
    then have "(b * 5 + i * 5 = 100) = (i = 20 - b)" for i by auto
    then show ?thesis
      using True unfolding base by simp
  next
    case False
    then have "b * 5 + i * 5 \<noteq> 100" for i by auto
    then show ?thesis
      using False unfolding base by simp
  qed
next
  case (Suc k)
  have "comps (map (\<lambda>k. k * 5) [0..<21]) (Suc (Suc k)) (b * 5)
        = (\<Sum>i<21. comps (map (\<lambda>k. k * 5) [0..<21]) (Suc k) ((b + i) * 5))"
    by (simp only: comps.simps(2) [of _ "Suc k"] sum_list_fives distrib_right)
  then have step: "comps (map (\<lambda>k. k * 5) [0..<21]) (Suc (Suc k)) (b * 5)
        = (\<Sum>i<21. if b + i \<le> 20 then (k + (20 - (b + i))) choose k else 0)"
    by (simp only: Suc.IH)
  show ?case
  proof (cases "b \<le> 20")
    case True
    define n where "n = 21 - b"
    note step
    also have "(\<Sum>i<21. if b + i \<le> 20 then (k + (20 - (b + i))) choose k else 0)
            = (\<Sum>i<21. if i < n then (k + (n - Suc i)) choose k else 0)"
      using True by (intro sum.cong) (auto simp: n_def)
    also have "\<dots> = (\<Sum>i<n. (k + (n - Suc i)) choose k)"
      using True by (simp add: sum.If_cases n_def Int_def) (intro sum.cong; auto)
    also have "\<dots> = (\<Sum>i<n. (k + i) choose k)"
      by (rule sum.nat_diff_reindex)
    also have "\<dots> = (k + n) choose Suc k"
      by (rule hockey_stick)
    finally have "comps (map (\<lambda>k. k * 5) [0..<21]) (Suc (Suc k)) (b * 5)
                    = (k + n) choose Suc k" .
    moreover have "k + n = Suc k + (20 - b)"
      using True by (simp add: n_def)
    ultimately show ?thesis
      using True by (simp only: if_True)
  next
    case False
    then show ?thesis unfolding step by simp
  qed
qed

lemma choose_24_4: "(24::nat) choose 4 = 10626"
proof -
  have a: "(22::nat) choose 2 = 231"
    by (simp add: choose_two)
  have "3 * ((23::nat) choose 3) = 23 * (22 choose 2)"
    using binomial_absorption [of 2 23] by simp
  then have b: "(23::nat) choose 3 = 1771"
    using a by simp
  have "4 * ((24::nat) choose 4) = 24 * (23 choose 3)"
    using binomial_absorption [of 3 24] by simp
  then show ?thesis
    using b by simp
qed

lemma count_step5: "length (strategies_tp5 (map (\<lambda>k. k * 5) [0..<21])) = 10626"
proof -
  have "comps (map (\<lambda>k. k * 5) [0..<21]) (Suc 4) (0 * 5) = (4 + (20 - 0)) choose 4"
    by (simp only: comps_closed) simp
  moreover note choose_24_4
  ultimately show ?thesis
    by (simp add: length_strategies_tp5 del: comps.simps upt.simps)
qed


lemma distinct_concat_map:
  assumes "distinct xs"
    and "\<And>x. x \<in> set xs \<Longrightarrow> distinct (f x)"
    and "\<And>x y. x \<in> set xs \<Longrightarrow> y \<in> set xs \<Longrightarrow> x \<noteq> y \<Longrightarrow> set (f x) \<inter> set (f y) = {}"
  shows "distinct (concat (map f xs))"
  using assms by (induction xs) auto

lemma strategies_tp5_elem:
  assumes "s \<in> set (strategies_tp5 ps)"
  shows "\<exists>a b c d e.
           a \<in> set ps \<and> b \<in> set ps \<and> c \<in> set ps \<and> d \<in> set ps \<and> e \<in> set ps
           \<and> a + b + c + d + e = 100
           \<and> s = [real a / 100, real b / 100, real c / 100, real d / 100, real e / 100, 0]"
  using assms unfolding strategies_tp5_def by (auto split: if_splits)

lemma strategies_tp5_member:
  assumes "a \<in> set ps" "b \<in> set ps" "c \<in> set ps" "d \<in> set ps" "e \<in> set ps"
    and "a + b + c + d + e = 100"
  shows "[real a / 100, real b / 100, real c / 100, real d / 100, real e / 100, 0]
           \<in> set (strategies_tp5 ps)"
  using assms unfolding strategies_tp5_def by auto

lemma distinct_strategies_tp5: "distinct ps \<Longrightarrow> distinct (strategies_tp5 ps)"
  unfolding strategies_tp5_def
  by (intro distinct_concat_map) auto

lemma percentages_5: "percentages 5 = Inr (map (\<lambda>k. k * 5) [0..<21])"
  by (simp add: percentages_def)

lemma distinct_fives: "distinct (map (\<lambda>k. k * 5) [0..<21])"
  by (simp add: distinct_map inj_on_def del: upt.simps)

text \<open>
  C6. With step 5 and the sixth slot off, strategy generation returns exactly 10626
  candidates, no two of them equal; each has six fractions, the sixth equal to 0, and is
  made of five integer percentages, each divided by 100, that sum to exactly 100.
\<close>

theorem generate_strategies_step5:
  "\<exists>ss. generate_strategies 5 False = Inr ss
       \<and> length ss = 10626 \<and> distinct ss
       \<and> (\<forall>s \<in> set ss. length s = 6 \<and> s ! 5 = 0
             \<and> (\<exists>a b c d e :: nat.
                   s = [real a / 100, real b / 100, real c / 100, real d / 100, real e / 100, 0]
                   \<and> a + b + c + d + e = 100))"
proof -
  let ?ps = "map (\<lambda>k. k * 5) [0..<21]"
  have g: "generate_strategies 5 False = Inr (strategies_tp5 ?ps)"
    by (simp only: generate_strategies_def percentages_5 bind_err_def sum.case simp_thms if_True)
  have each: "length s = 6 \<and> s ! 5 = 0
             \<and> (\<exists>a b c d e :: nat.
                   s = [real a / 100, real b / 100, real c / 100, real d / 100, real e / 100, 0]
                   \<and> a + b + c + d + e = 100)"
    if mem: "s \<in> set (strategies_tp5 ?ps)" for s
  proof -
    obtain a b c d e :: nat
      where s: "s = [real a / 100, real b / 100, real c / 100, real d / 100, real e / 100, 0]"
        and sum: "a + b + c + d + e = 100"
      using strategies_tp5_elem [OF mem] by blast
    show ?thesis
      using s sum by auto
  qed
  show ?thesis
    using g count_step5 distinct_strategies_tp5 [OF distinct_fives] each
    by (intro exI [of _ "strategies_tp5 ?ps"]) blast
qed

theorem generate_strategies_step5_witness:
  "\<exists>ss. generate_strategies 5 False = Inr ss
       \<and> default_strategy \<in> set ss
       \<and> length default_strategy = 6 \<and> default_strategy ! 5 = 0
       \<and> default_strategy = [real 50 / 100, real 20 / 100, real 10 / 100, real 10 / 100,
                               real 10 / 100, 0]
       \<and> (50 :: nat) + 20 + 10 + 10 + 10 = 100"
proof -
  obtain ss where ss: "generate_strategies 5 False = Inr ss"
    and each: "\<forall>s \<in> set ss. length s = 6 \<and> s ! 5 = 0
             \<and> (\<exists>a b c d e :: nat.
                   s = [real a / 100, real b / 100, real c / 100, real d / 100, real e / 100, 0]
                   \<and> a + b + c + d + e = 100)"
    using generate_strategies_step5 by blast
  have "ss = strategies_tp5 (map (\<lambda>k. k * 5) [0..<21])"
    using ss by (simp only: generate_strategies_def percentages_5 bind_err_def sum.case
        simp_thms if_True sum.inject)
  moreover have "default_strategy \<in> set (strategies_tp5 (map (\<lambda>k. k * 5) [0..<21]))"
  proof -
    have m: "k * 5 \<in> set (map (\<lambda>k. k * 5) [0..<21])" if "k < 21" for k :: nat
      using that by (simp del: upt.simps)
    have "default_strategy
          = [real (10 * 5) / 100, real (4 * 5) / 100, real (2 * 5) / 100, real (2 * 5) / 100,
             real (2 * 5) / 100, 0]"
      by (simp add: default_strategy_def)
    moreover have "[real (10 * 5) / 100, real (4 * 5) / 100, real (2 * 5) / 100,
             real (2 * 5) / 100, real (2 * 5) / 100, 0]
           \<in> set (strategies_tp5 (map (\<lambda>k. k * 5) [0..<21]))"
      by (intro strategies_tp5_member m) simp_all
    ultimately show ?thesis by (simp only:)
  qed
  ultimately have m: "default_strategy \<in> set ss" by simp
  have "length default_strategy = 6 \<and> default_strategy ! 5 = 0"
    using each m by blast
  moreover have "default_strategy = [real 50 / 100, real 20 / 100, real 10 / 100,
      real 10 / 100, real 10 / 100, 0]"
    by (simp add: default_strategy_def)
  ultimately show ?thesis
    using ss m by (intro exI [of _ ss]) simp
qed

end
